theory Spec2Isabelle
  imports Complex_Main "HOL-Library.Word"
begin

section \<open>Values, exceptions and the wrapped Web3 connection\<close>

text \<open>
  The SDK in \<^verbatim>\<open>jasmine_eth/sdk.py\<close> is a thin layer over the \<^verbatim>\<open>web3\<close> library. Every
  class wraps one \<^verbatim>\<open>Web3\<close> object (\<^verbatim>\<open>Web3Wrapper._web3\<close>) and reaches the chain, the
  signer, the ABI encoder and the hex decoder only through it. Those library calls are not
  code of the SDK, so the model takes them as the fields of a record \<open>Web3\<close>: each field
  is what the library call answers, an exception (\<open>Inl\<close>) or a value (\<open>Inr\<close>).

  Python strings are \<open>string\<close> (one \<open>char\<close> per code point below 256), raw bytes
  are lists of 8-bit words, Python integers are \<open>int\<close>, and a \<^verbatim>\<open>dict\<close> with string keys
  (\<^verbatim>\<open>TxParams\<close>, \<^verbatim>\<open>TxReceipt\<close>) is a map from strings to values.
\<close>

type_synonym bytes = "8 word list"

datatype val = VInt int | VStr string | VBytes bytes

type_synonym TxParams = "string \<rightharpoonup> val"

type_synonym TxReceipt = "string \<rightharpoonup> val"

text \<open>
  An exception object: its class name and its message. Only instances of Python's
  \<^verbatim>\<open>Exception\<close> are modelled, which is what \<^verbatim>\<open>except Exception\<close> (line 42) catches and what
  the library raises when a call fails. A class is identified by its name.
\<close>

datatype exn = PyException (exn_class: string) (exn_message: string)

text \<open>
  Python does not let a \<^verbatim>\<open>StopIteration\<close> leave a coroutine: whoever awaits an
  \<^verbatim>\<open>async def\<close> function in which one is raised and not caught receives a \<^verbatim>\<open>RuntimeError\<close>
  instead. Every other exception leaves the coroutine as it is.
\<close>

definition coroutine_raises :: "exn \<Rightarrow> exn" where
  "coroutine_raises e =
     (if exn_class e = ''StopIteration''
      then PyException ''RuntimeError'' ''coroutine raised StopIteration''
      else e)"

record SignedTransaction =
  rawTransaction :: bytes

text \<open>
  The library calls the SDK makes on \<^verbatim>\<open>self._web3\<close>, by their names in the source:
  \<^item> \<open>estimateGas\<close>, \<open>generateGasPrice\<close>: \<^verbatim>\<open>web3.eth.estimateGas(transaction)\<close> and
    \<^verbatim>\<open>web3.eth.generateGasPrice(transaction)\<close> (the latter as it answers once
    \<^verbatim>\<open>rpc_gas_price_strategy\<close> is installed, which line 29 does just before the call);
  \<^item> \<open>getTransactionCount\<close>: \<^verbatim>\<open>web3.eth.getTransactionCount(address)\<close>;
  \<^item> \<open>sign_transaction\<close>: \<^verbatim>\<open>web3.eth.account.sign_transaction(transaction, private_key)\<close>;
  \<^item> \<open>sendRawTransaction\<close>, \<open>waitForTransactionReceipt\<close>: submission and confirmation wait;
  \<^item> \<open>from_key\<close>: the address of \<^verbatim>\<open>web3.eth.account.from_key(private_key)\<close>;
  \<^item> \<open>toBytes\<close>: \<^verbatim>\<open>web3.toBytes(hexstr=...)\<close>;
  \<^item> \<open>buildTransaction\<close>: \<^verbatim>\<open>contract.functions.f(args).buildTransaction(params)\<close> for the
    contract bound to an address, given the address, the function name \<open>f\<close>, the
    arguments and the parameter dict.
  Within one call of \<open>send_transaction\<close> each of them is asked at most once, so a function
  of the arguments describes the answer.
\<close>

record Web3 =
  estimateGas :: "TxParams \<Rightarrow> exn + val"
  generateGasPrice :: "TxParams \<Rightarrow> exn + val"
  getTransactionCount :: "string \<Rightarrow> exn + val"
  sign_transaction :: "TxParams \<Rightarrow> string \<Rightarrow> exn + SignedTransaction"
  sendRawTransaction :: "bytes \<Rightarrow> exn + bytes"
  waitForTransactionReceipt :: "bytes \<Rightarrow> exn + TxReceipt"
  from_key :: "string \<Rightarrow> exn + string"
  toBytes :: "string \<Rightarrow> exn + bytes"
  buildTransaction :: "string \<Rightarrow> string \<Rightarrow> val list \<Rightarrow> TxParams \<Rightarrow> exn + TxParams"

section \<open>Accounts\<close>

text \<open>
  \<^verbatim>\<open>class Account\<close> (lines 49-62): the private key given to the constructor and the address
  the library derives from it.
\<close>

record Account =
  private_key :: string
  address :: string


section \<open>Program state\<close>

text \<open>
  Dict objects live in a store, addressed by reference, so that a caller and
  \<open>send_transaction\<close> share the object the caller passes. \<open>next_ref\<close> is the next unused
  reference. \<open>future\<close> is the state of the \<^verbatim>\<open>asyncio\<close> future of the call in progress, and
  \<open>trace\<close> lists, in order, the library calls made and the calls of the future's
  \<^verbatim>\<open>set_result\<close> and \<^verbatim>\<open>set_exception\<close>.
\<close>

type_synonym ref = nat

datatype future_state = Pending | Result TxReceipt | Raised exn

datatype event =
    EstimateGas
  | SetGasPriceStrategy
  | GenerateGasPrice
  | GetTransactionCount string
  | SignTransaction string
  | SendRawTransaction bytes
  | WaitForTransactionReceipt bytes
  | SetResult TxReceipt
  | SetException exn
  | ToBytes string
  | BuildTransaction string string "val list" string

record state =
  store :: "ref \<Rightarrow> TxParams"
  next_ref :: ref
  future :: future_state
  trace :: "event list"

definition log :: "event \<Rightarrow> state \<Rightarrow> state" where
  "log ev s = s\<lparr>trace := trace s @ [ev]\<rparr>"

text \<open>\<^verbatim>\<open>transaction[k] = v\<close> on the dict object at reference \<open>t\<close>.\<close>

definition set_item :: "ref \<Rightarrow> string \<Rightarrow> val \<Rightarrow> state \<Rightarrow> state" where
  "set_item t k v s = s\<lparr>store := (store s)(t := (store s t)(k \<mapsto> v))\<rparr>"

text \<open>A new dict object with content \<open>d\<close>.\<close>

definition alloc :: "TxParams \<Rightarrow> state \<Rightarrow> ref \<times> state" where
  "alloc d s = (next_ref s, s\<lparr>store := (store s)(next_ref s := d), next_ref := Suc (next_ref s)\<rparr>)"

subsection \<open>The future\<close>

text \<open>
  \<^verbatim>\<open>asyncio.Future.set_result\<close> and \<^verbatim>\<open>set_exception\<close> raise \<^verbatim>\<open>InvalidStateError\<close> on a
  future that is already done, and \<^verbatim>\<open>set_exception\<close> raises \<^verbatim>\<open>TypeError\<close> when it is given
  a \<^verbatim>\<open>StopIteration\<close>, leaving the future pending. Every call is recorded in the trace,
  whether it takes effect or not. Awaiting a future that is never resolved does not
  return: \<open>None\<close>.
\<close>

definition InvalidStateError :: exn where
  "InvalidStateError = PyException ''InvalidStateError'' ''invalid state''"

definition set_result :: "TxReceipt \<Rightarrow> state \<Rightarrow> state \<times> (exn + unit)" where
  "set_result r s =
     (case future s of
        Pending \<Rightarrow> (log (SetResult r) (s\<lparr>future := Result r\<rparr>), Inr ())
      | _ \<Rightarrow> (log (SetResult r) s, Inl InvalidStateError))"

definition set_exception :: "exn \<Rightarrow> state \<Rightarrow> state \<times> (exn + unit)" where
  "set_exception e s =
     (case future s of
        Pending \<Rightarrow>
          (if exn_class e = ''StopIteration''
           then (log (SetException e) s,
                 Inl (PyException ''TypeError''
                   ''StopIteration interacts badly with generators and cannot be raised into a Future''))
           else (log (SetException e) (s\<lparr>future := Raised e\<rparr>), Inr ()))
      | _ \<Rightarrow> (log (SetException e) s, Inl InvalidStateError))"

definition await_future :: "state \<Rightarrow> (exn + TxReceipt) option" where
  "await_future s =
     (case future s of
        Pending \<Rightarrow> None
      | Result r \<Rightarrow> Some (Inr r)
      | Raised e \<Rightarrow> Some (Inl e))"

section \<open>\<^verbatim>\<open>Web3Wrapper.send_transaction\<close> (lines 20-46)\<close>

text \<open>
  Field completion, lines 25-32: three \<^verbatim>\<open>if k not in transaction\<close> statements in a row.
  An exception of a library call leaves the statement before the assignment.
\<close>

definition fill_gas :: "Web3 \<Rightarrow> ref \<Rightarrow> state \<Rightarrow> state \<times> (exn + unit)" where
  "fill_gas w t s =
     (if ''gas'' \<notin> dom (store s t) then
        (case estimateGas w (store s t) of
           Inl e \<Rightarrow> (log EstimateGas s, Inl e)
         | Inr v \<Rightarrow> (set_item t ''gas'' v (log EstimateGas s), Inr ()))
      else (s, Inr ()))"

definition fill_gasPrice :: "Web3 \<Rightarrow> ref \<Rightarrow> state \<Rightarrow> state \<times> (exn + unit)" where
  "fill_gasPrice w t s =
     (if ''gasPrice'' \<notin> dom (store s t) then
        (let s' = log GenerateGasPrice (log SetGasPriceStrategy s) in
         case generateGasPrice w (store s t) of
           Inl e \<Rightarrow> (s', Inl e)
         | Inr v \<Rightarrow> (set_item t ''gasPrice'' v s', Inr ()))
      else (s, Inr ()))"

definition fill_nonce :: "Web3 \<Rightarrow> ref \<Rightarrow> Account \<Rightarrow> state \<Rightarrow> state \<times> (exn + unit)" where
  "fill_nonce w t sender s =
     (if ''nonce'' \<notin> dom (store s t) then
        (let s' = log (GetTransactionCount (address sender)) s in
         case getTransactionCount w (address sender) of
           Inl e \<Rightarrow> (s', Inl e)
         | Inr v \<Rightarrow> (set_item t ''nonce'' v s', Inr ()))
      else (s, Inr ()))"

definition complete_fields :: "Web3 \<Rightarrow> ref \<Rightarrow> Account \<Rightarrow> state \<Rightarrow> state \<times> (exn + unit)" where
  "complete_fields w t sender s =
     (case fill_gas w t s of
        (s1, Inl e) \<Rightarrow> (s1, Inl e)
      | (s1, Inr _) \<Rightarrow>
          (case fill_gasPrice w t s1 of
             (s2, Inl e) \<Rightarrow> (s2, Inl e)
           | (s2, Inr _) \<Rightarrow> fill_nonce w t sender s2))"

text \<open>Signing, line 35: the dict as completed and the sender's private key go to the library.\<close>

definition sign :: "Web3 \<Rightarrow> ref \<Rightarrow> Account \<Rightarrow> state \<Rightarrow> state \<times> (exn + SignedTransaction)" where
  "sign w t sender s =
     (log (SignTransaction (private_key sender)) s,
      sign_transaction w (store s t) (private_key sender))"

text \<open>
  The background task, lines 37-43. Everything in the \<^verbatim>\<open>try\<close> block, \<^verbatim>\<open>set_result\<close>
  included, is under the \<^verbatim>\<open>except\<close> clause; an exception of \<^verbatim>\<open>set_exception\<close> inside the
  handler is the task's own outcome.
\<close>

definition transaction_task :: "Web3 \<Rightarrow> SignedTransaction \<Rightarrow> state \<Rightarrow> state \<times> (exn + unit)" where
  "transaction_task w signed_tx s =
     (let s1 = log (SendRawTransaction (rawTransaction signed_tx)) s in
      case sendRawTransaction w (rawTransaction signed_tx) of
        Inl e \<Rightarrow> set_exception e s1
      | Inr tx_hash \<Rightarrow>
          (let s2 = log (WaitForTransactionReceipt tx_hash) s1 in
           case waitForTransactionReceipt w tx_hash of
             Inl e \<Rightarrow> set_exception e s2
           | Inr receipt \<Rightarrow>
               (case set_result receipt s2 of
                  (s3, Inl e) \<Rightarrow> set_exception e s3
                | (s3, Inr _) \<Rightarrow> (s3, Inr ()))))"

text \<open>
  The coroutine: a fresh future (line 23), field completion and signing in the coroutine
  itself, where an exception leaves the coroutine at once, then the task is scheduled
  (line 45) and the coroutine awaits the future (line 46): the event loop runs the task,
  and the coroutine resumes with what the future holds, an exception held by the future
  being raised in the coroutine and leaving it. The result is the state afterwards and what
  awaiting the coroutine gives: \<open>Some (Inr receipt)\<close>, \<open>Some (Inl exception)\<close>, or \<open>None\<close>
  if the await never returns.
\<close>

definition send_transaction ::
  "Web3 \<Rightarrow> ref \<Rightarrow> Account \<Rightarrow> state \<Rightarrow> state \<times> (exn + TxReceipt) option" where
  "send_transaction w t sender s0 =
     (let s = s0\<lparr>future := Pending\<rparr> in
      case complete_fields w t sender s of
        (s1, Inl e) \<Rightarrow> (s1, Some (Inl (coroutine_raises e)))
      | (s1, Inr _) \<Rightarrow>
          (case sign w t sender s1 of
             (s2, Inl e) \<Rightarrow> (s2, Some (Inl (coroutine_raises e)))
           | (s2, Inr signed_tx) \<Rightarrow>
               (let s3 = fst (transaction_task w signed_tx s2) in
                (s3, case await_future s3 of
                       None \<Rightarrow> None
                     | Some (Inl e) \<Rightarrow> Some (Inl (coroutine_raises e))
                     | Some (Inr receipt) \<Rightarrow> Some (Inr receipt)))))"

section \<open>\<^verbatim>\<open>SDK.__init__\<close> (lines 66-75)\<close>

text \<open>
  \<^verbatim>\<open>str.strip()\<close> removes leading and trailing whitespace; these are the code points below
  256 for which \<^verbatim>\<open>str.isspace\<close> holds.
\<close>

definition isspace :: "char \<Rightarrow> bool" where
  "isspace c = (of_char c \<in> {9, 10, 11, 12, 13, 28, 29, 30, 31, 32, 133, 160 :: nat})"

definition strip :: "string \<Rightarrow> string" where
  "strip s = rev (dropWhile isspace (rev (dropWhile isspace s)))"

definition startswith :: "string \<Rightarrow> string \<Rightarrow> bool" where
  "startswith s p = (take (length p) s = p)"

datatype provider = HTTPProvider string | WebsocketProvider string

text \<open>
  The argument is \<open>None\<close> or a string. \<^verbatim>\<open>endpoint.strip()\<close> is the first statement, so
  \<open>None\<close> fails there; after it \<^verbatim>\<open>endpoint\<close> is a string and both \<^verbatim>\<open>is not None\<close> tests
  are true. The result is the provider the wrapped \<^verbatim>\<open>Web3\<close> is built on. (\<open>CHR 0x27\<close> is
  the single quote of Python's message.)
\<close>

definition SDK_init :: "string option \<Rightarrow> exn + provider" where
  "SDK_init endpoint =
     (case endpoint of
        None \<Rightarrow>
          Inl (PyException ''AttributeError''
                 (CHR 0x27 # ''NoneType'' @ CHR 0x27 # '' object has no attribute '' @
                  CHR 0x27 # ''strip'' @ [CHR 0x27]))
      | Some e0 \<Rightarrow>
          (let e = strip e0 in
           if startswith e ''http'' then Inr (HTTPProvider e)
           else if startswith e ''ws'' then Inr (WebsocketProvider e)
           else Inl (PyException ''ValueError'' (''unsupported Ethereum endpoint '' @ e))))"

section \<open>Contract bindings (lines 116-199)\<close>

text \<open>
  \<^verbatim>\<open>TFCManager\<close> and \<^verbatim>\<open>TFCToken\<close> hold \<^verbatim>\<open>self._contract\<close>, the library's contract object for
  the address given to the constructor. What an \<^verbatim>\<open>async def\<close> method gives its caller is
  the value of its \<^verbatim>\<open>return\<close>; a method that ends without one gives \<^verbatim>\<open>None\<close>.
\<close>

record Contract =
  contract_address :: string

datatype pyval = PyNone | PyReceipt TxReceipt

text \<open>
  \<^verbatim>\<open>await self.send_transaction(transaction, acting)\<close> as the last statement of a method
  with no \<^verbatim>\<open>return\<close>: an exception is raised in the method and leaves it, a receipt is
  dropped. An exception of the decoder or of the builder leaves the method likewise.
\<close>

definition await_discard :: "(exn + TxReceipt) option \<Rightarrow> (exn + pyval) option" where
  "await_discard out =
     (case out of
        None \<Rightarrow> None
      | Some (Inl e) \<Rightarrow> Some (Inl (coroutine_raises e))
      | Some (Inr receipt) \<Rightarrow> Some (Inr PyNone))"

definition TFCManager_claim_tfc ::
  "Web3 \<Rightarrow> Contract \<Rightarrow> int \<Rightarrow> int \<Rightarrow> string \<Rightarrow> Account \<Rightarrow> state \<Rightarrow> state \<times> (exn + pyval) option" where
  "TFCManager_claim_tfc w self amount nonce signature claimer s =
     (let s0 = log (ToBytes signature) s in
      case toBytes w signature of
        Inl e \<Rightarrow> (s0, Some (Inl (coroutine_raises e)))
      | Inr sig \<Rightarrow>
          (let args = [VInt amount, VInt nonce, VBytes sig];
               s1 = log (BuildTransaction (contract_address self) ''claimTFC'' args (address claimer)) s0 in
           case buildTransaction w (contract_address self) ''claimTFC'' args
                  [''from'' \<mapsto> VStr (address claimer)] of
             Inl e \<Rightarrow> (s1, Some (Inl (coroutine_raises e)))
           | Inr transaction \<Rightarrow>
               (let (t, s2) = alloc transaction s1;
                    (s3, out) = send_transaction w t claimer s2
                in (s3, await_discard out))))"

definition TFCToken_transfer ::
  "Web3 \<Rightarrow> Contract \<Rightarrow> string \<Rightarrow> int \<Rightarrow> Account \<Rightarrow> state \<Rightarrow> state \<times> (exn + pyval) option" where
  "TFCToken_transfer w self recipient amount sender s =
     (let args = [VStr recipient, VInt amount];
          s1 = log (BuildTransaction (contract_address self) ''transfer'' args (address sender)) s in
      case buildTransaction w (contract_address self) ''transfer'' args
             [''from'' \<mapsto> VStr (address sender)] of
        Inl e \<Rightarrow> (s1, Some (Inl (coroutine_raises e)))
      | Inr transaction \<Rightarrow>
          (let (t, s2) = alloc transaction s1;
               (s3, out) = send_transaction w t sender s2
           in (s3, await_discard out)))"



text \<open>
  What the four methods have in common, written once for the comparison with each of them:
  the contract binding builds the intent for the call \<open>f(args)\<close> from the parameter dict
  \<^verbatim>\<open>{"from": acting.address}\<close>; the intent, a new dict object, goes to \<open>send_transaction\<close>
  with the acting account; an exception of either step leaves the method, and when
  \<open>send_transaction\<close> gives a receipt the method gives \<^verbatim>\<open>None\<close>.
\<close>

definition state_mutating_call ::
  "Web3 \<Rightarrow> Contract \<Rightarrow> string \<Rightarrow> val list \<Rightarrow> Account \<Rightarrow> state \<Rightarrow> state \<times> (exn + pyval) option" where
  "state_mutating_call w self f args acting s =
     (let s1 = log (BuildTransaction (contract_address self) f args (address acting)) s in
      case buildTransaction w (contract_address self) f args
             [''from'' \<mapsto> VStr (address acting)] of
        Inl e \<Rightarrow> (s1, Some (Inl (coroutine_raises e)))
      | Inr intent \<Rightarrow>
          (let submitted = send_transaction w (next_ref s1) acting (snd (alloc intent s1))
           in (fst submitted,
               case snd submitted of
                 None \<Rightarrow> None
               | Some (Inl e) \<Rightarrow> Some (Inl (coroutine_raises e))
               | Some (Inr receipt) \<Rightarrow> Some (Inr PyNone))))"

section \<open>Reading the trace\<close>

fun is_resolution :: "event \<Rightarrow> bool" where
  "is_resolution (SetResult r) = True"
| "is_resolution (SetException e) = True"
| "is_resolution ev = False"

definition resolutions :: "event list \<Rightarrow> event list" where
  "resolutions evs = filter is_resolution evs"

section \<open>The library's pure helpers\<close>

text \<open>
  \<^verbatim>\<open>Web3.toBytes\<close>, \<^verbatim>\<open>Web3.fromWei\<close> and \<^verbatim>\<open>Web3.toWei\<close> are static functions of the
  library: they compute on their arguments and ask no chain. They are not code of the SDK;
  what follows writes down what they compute.

  \<^verbatim>\<open>toBytes(hexstr=s)\<close>: an odd number of characters is padded (the \<^verbatim>\<open>0x\<close> prefix dropped
  and \<^verbatim>\<open>0\<close> put in front), a \<^verbatim>\<open>0x\<close> or \<^verbatim>\<open>0X\<close> prefix is dropped, the rest is encoded as
  ASCII (\<^verbatim>\<open>UnicodeEncodeError\<close> on a character of code 128 or more) and each pair of hex
  digits becomes a byte (\<^verbatim>\<open>binascii.Error\<close> on any other character).
\<close>

definition hex_digit :: "char \<Rightarrow> nat option" where
  "hex_digit c =
     (let n = of_char c :: nat in
      if 48 \<le> n \<and> n \<le> 57 then Some (n - 48)
      else if 97 \<le> n \<and> n \<le> 102 then Some (n - 87)
      else if 65 \<le> n \<and> n \<le> 70 then Some (n - 55)
      else None)"

definition is_hex :: "char \<Rightarrow> bool" where
  "is_hex c = (hex_digit c \<noteq> None)"

definition is_ascii :: "char \<Rightarrow> bool" where
  "is_ascii c = ((of_char c :: nat) < 128)"

fun unhexlify :: "string \<Rightarrow> bytes option" where
  "unhexlify [] = Some []"
| "unhexlify [c] = None"
| "unhexlify (a # b # cs) =
     (case (hex_digit a, hex_digit b, unhexlify cs) of
        (Some x, Some y, Some r) \<Rightarrow> Some (of_nat (16 * x + y) # r)
      | _ \<Rightarrow> None)"

definition remove_0x_prefix :: "string \<Rightarrow> string" where
  "remove_0x_prefix s = (if take 2 s = ''0x'' \<or> take 2 s = ''0X'' then drop 2 s else s)"

text \<open>The digits that are decoded: the string without its prefix, padded to even length.\<close>

definition padded_hex :: "string \<Rightarrow> string" where
  "padded_hex hexstr =
     (if odd (length hexstr) then ''0'' @ remove_0x_prefix hexstr
      else remove_0x_prefix hexstr)"

definition web3_toBytes :: "string \<Rightarrow> exn + bytes" where
  "web3_toBytes hexstr =
     (let h = padded_hex hexstr in
      if \<not> list_all is_ascii h
      then Inl (PyException ''UnicodeEncodeError'' ''ordinal not in range(128)'')
      else case unhexlify h of
             None \<Rightarrow> Inl (PyException ''binascii.Error'' ''Non-hexadecimal digit found'')
           | Some b \<Rightarrow> Inr b)"




section \<open>\<^verbatim>\<open>SDK.wei_to_eth\<close> and \<^verbatim>\<open>SDK.eth_to_wei\<close> (lines 95-99)\<close>



section \<open>A sample connection, for evaluating the SDK at concrete inputs\<close>

text \<open>
  A stand-in for the chain and the rest of the library, used only where a statement is
  evaluated at a concrete input. Its signer accepts an intent whose \<open>from\<close> is absent or is
  the address of the key and raises a \<^verbatim>\<open>TypeError\<close> otherwise, as the library's does. Its
  builder writes the bound address into \<open>to\<close> and, into \<open>data\<close>, an encoding of the call
  that lists the bytes of the function name and of the arguments.
\<close>

fun sample_val_bytes :: "val \<Rightarrow> bytes" where
  "sample_val_bytes (VInt n) = [of_int n]"
| "sample_val_bytes (VStr s) = map (\<lambda>c. of_nat (of_char c)) s"
| "sample_val_bytes (VBytes b) = b"

definition sample_encodeABI :: "string \<Rightarrow> val list \<Rightarrow> bytes" where
  "sample_encodeABI f xs = map (\<lambda>c. of_nat (of_char c)) f @ concat (map sample_val_bytes xs)"

definition sample_sign :: "TxParams \<Rightarrow> string \<Rightarrow> exn + SignedTransaction" where
  "sample_sign tx key =
     (if tx ''from'' = None \<or> tx ''from'' = Some (VStr (''0x'' @ key))
      then Inr \<lparr>rawTransaction = [0xf8, 0x6b]\<rparr>
      else Inl (PyException ''TypeError'' ''from field must match key''))"

definition sample_web3 :: Web3 where
  "sample_web3 =
     \<lparr>estimateGas = (\<lambda>tx. Inr (VInt 21000)),
      generateGasPrice = (\<lambda>tx. Inr (VInt 5)),
      getTransactionCount = (\<lambda>a. Inr (VInt 0)),
      sign_transaction = sample_sign,
      sendRawTransaction = (\<lambda>raw. Inr (0x12 # raw)),
      waitForTransactionReceipt = (\<lambda>h. Inr [''transactionHash'' \<mapsto> VBytes h]),
      from_key = (\<lambda>key. Inr (''0x'' @ key)),
      toBytes = web3_toBytes,
      buildTransaction =
        (\<lambda>a f xs p. Inr (p(''to'' \<mapsto> VStr a, ''data'' \<mapsto> VBytes (sample_encodeABI f xs))))\<rparr>"

definition sample_account :: Account where
  "sample_account = \<lparr>private_key = ''a1'', address = ''0xa1''\<rparr>"

text \<open>
  Two dict objects: at reference 0 an intent with \<open>from\<close>, \<open>to\<close> and \<open>value\<close> only, at
  reference 1 the same intent with \<open>gas\<close>, \<open>gasPrice\<close> and \<open>nonce\<close> set.
\<close>

definition sample_intent :: TxParams where
  "sample_intent = [''from'' \<mapsto> VStr ''0xa1'', ''to'' \<mapsto> VStr ''0xb2'', ''value'' \<mapsto> VInt 1]"

definition sample_state :: state where
  "sample_state =
     \<lparr>store = (\<lambda>r. Map.empty)
        (0 := sample_intent,
         1 := sample_intent(''gas'' \<mapsto> VInt 30000, ''gasPrice'' \<mapsto> VInt 9, ''nonce'' \<mapsto> VInt 4)),
      next_ref = 2,
      future = Pending,
      trace = []\<rparr>"


definition sample_contract :: Contract where
  "sample_contract = \<lparr>contract_address = ''0xc0''\<rparr>"


definition sample_web3_no_estimate :: Web3 where
  "sample_web3_no_estimate =
     sample_web3\<lparr>estimateGas := (\<lambda>tx. Inl (PyException ''ValueError'' ''execution reverted''))\<rparr>"

definition sample_web3_stop :: Web3 where
  "sample_web3_stop =
     sample_web3\<lparr>sendRawTransaction := (\<lambda>raw. Inl (PyException ''StopIteration'' []))\<rparr>"

section \<open>Sample evaluation\<close>

lemmas sample_defs =
  sample_web3_def sample_account_def sample_state_def sample_intent_def sample_sign_def

lemmas run_defs =
  send_transaction_def complete_fields_def fill_gas_def fill_gasPrice_def fill_nonce_def
  sign_def transaction_task_def set_result_def set_exception_def await_future_def
  coroutine_raises_def log_def set_item_def Let_def

section \<open>What field completion, signing and the task do to the state\<close>

lemma fill_gas_shape:
  "\<exists>evs. trace (fst (fill_gas w t s)) = trace s @ evs \<and> resolutions evs = [] \<and>
     future (fst (fill_gas w t s)) = future s"
  by (auto simp: fill_gas_def set_item_def log_def resolutions_def split: sum.splits)

lemma fill_gasPrice_shape:
  "\<exists>evs. trace (fst (fill_gasPrice w t s)) = trace s @ evs \<and> resolutions evs = [] \<and>
     future (fst (fill_gasPrice w t s)) = future s"
  by (auto simp: fill_gasPrice_def set_item_def log_def resolutions_def Let_def split: sum.splits)

lemma fill_nonce_shape:
  "\<exists>evs. trace (fst (fill_nonce w t sender s)) = trace s @ evs \<and> resolutions evs = [] \<and>
     future (fst (fill_nonce w t sender s)) = future s"
  by (auto simp: fill_nonce_def set_item_def log_def resolutions_def Let_def split: sum.splits)

lemma resolutions_append: "resolutions (xs @ ys) = resolutions xs @ resolutions ys"
  by (simp add: resolutions_def)

lemma complete_fields_shape:
  "\<exists>evs. trace (fst (complete_fields w t sender s)) = trace s @ evs \<and> resolutions evs = [] \<and>
     future (fst (complete_fields w t sender s)) = future s"
proof -
  obtain e1 where 1: "trace (fst (fill_gas w t s)) = trace s @ e1" "resolutions e1 = []"
      "future (fst (fill_gas w t s)) = future s"
    using fill_gas_shape by blast
  let ?s1 = "fst (fill_gas w t s)"
  obtain e2 where 2: "trace (fst (fill_gasPrice w t ?s1)) = trace ?s1 @ e2" "resolutions e2 = []"
      "future (fst (fill_gasPrice w t ?s1)) = future ?s1"
    using fill_gasPrice_shape by blast
  let ?s2 = "fst (fill_gasPrice w t ?s1)"
  obtain e3 where 3: "trace (fst (fill_nonce w t sender ?s2)) = trace ?s2 @ e3" "resolutions e3 = []"
      "future (fst (fill_nonce w t sender ?s2)) = future ?s2"
    using fill_nonce_shape by blast
  show ?thesis
    using 1 2 3
    by (auto simp: complete_fields_def resolutions_append split: prod.splits sum.splits)
qed

lemma set_exception_pending:
  assumes "future s = Pending"
  shows "trace (fst (set_exception e s)) = trace s @ [SetException e] \<and>
     (if exn_class e = ''StopIteration'' then future (fst (set_exception e s)) = Pending
      else future (fst (set_exception e s)) = Raised e)"
  using assms by (simp add: set_exception_def log_def)

lemma set_result_pending:
  assumes "future s = Pending"
  shows "set_result r s = (s\<lparr>future := Result r, trace := trace s @ [SetResult r]\<rparr>, Inr ())"
  using assms by (simp add: set_result_def log_def)

lemma resolutions_simps:
  "resolutions [] = []"
  "resolutions (SendRawTransaction raw # evs) = resolutions evs"
  "resolutions (WaitForTransactionReceipt h # evs) = resolutions evs"
  "resolutions (SetResult r # evs) = SetResult r # resolutions evs"
  "resolutions (SetException e # evs) = SetException e # resolutions evs"
  by (simp_all add: resolutions_def)

lemma transaction_task_pending:
  assumes "future s = Pending"
  shows "\<exists>evs. trace (fst (transaction_task w stx s)) = trace s @ evs \<and>
     ((\<exists>r. future (fst (transaction_task w stx s)) = Result r \<and> resolutions evs = [SetResult r]) \<or>
      (\<exists>e. future (fst (transaction_task w stx s)) = Raised e \<and>
           exn_class e \<noteq> ''StopIteration'' \<and> resolutions evs = [SetException e]) \<or>
      (\<exists>e. future (fst (transaction_task w stx s)) = Pending \<and>
           exn_class e = ''StopIteration'' \<and> resolutions evs = [SetException e]))"
proof (cases "sendRawTransaction w (rawTransaction stx)")
  case (Inl e)
  let ?s1 = "log (SendRawTransaction (rawTransaction stx)) s"
  have p: "future ?s1 = Pending" using assms by (simp add: log_def)
  have run: "fst (transaction_task w stx s) = fst (set_exception e ?s1)"
    using Inl by (simp add: transaction_task_def Let_def)
  have tr: "trace (fst (transaction_task w stx s)) =
      trace s @ [SendRawTransaction (rawTransaction stx), SetException e]"
    using set_exception_pending [OF p, of e] by (simp add: run log_def)
  show ?thesis
  proof (cases "exn_class e = ''StopIteration''")
    case True
    then have "future (fst (transaction_task w stx s)) = Pending"
      using set_exception_pending [OF p, of e] by (simp add: run)
    with tr True show ?thesis by (auto simp: resolutions_simps)
  next
    case False
    then have "future (fst (transaction_task w stx s)) = Raised e"
      using set_exception_pending [OF p, of e] by (simp add: run)
    with tr False show ?thesis by (auto simp: resolutions_simps)
  qed
next
  case (Inr h)
  let ?s2 = "log (WaitForTransactionReceipt h) (log (SendRawTransaction (rawTransaction stx)) s)"
  have p: "future ?s2 = Pending" using assms by (simp add: log_def)
  have t2: "trace ?s2 = trace s @ [SendRawTransaction (rawTransaction stx),
      WaitForTransactionReceipt h]"
    by (simp add: log_def)
  show ?thesis
  proof (cases "waitForTransactionReceipt w h")
    case e: (Inl e)
    have run: "fst (transaction_task w stx s) = fst (set_exception e ?s2)"
      using Inr e by (simp add: transaction_task_def Let_def)
    have tr: "trace (fst (transaction_task w stx s)) =
        trace s @ [SendRawTransaction (rawTransaction stx), WaitForTransactionReceipt h,
          SetException e]"
      using set_exception_pending [OF p, of e] t2 by (simp add: run)
    show ?thesis
    proof (cases "exn_class e = ''StopIteration''")
      case True
      then have "future (fst (transaction_task w stx s)) = Pending"
        using set_exception_pending [OF p, of e] by (simp add: run)
      with tr True show ?thesis by (auto simp: resolutions_simps)
    next
      case False
      then have "future (fst (transaction_task w stx s)) = Raised e"
        using set_exception_pending [OF p, of e] by (simp add: run)
      with tr False show ?thesis by (auto simp: resolutions_simps)
    qed
  next
    case r: (Inr r)
    have run: "fst (transaction_task w stx s) =
        ?s2\<lparr>future := Result r, trace := trace ?s2 @ [SetResult r]\<rparr>"
      using Inr r set_result_pending [OF p, of r] by (simp add: transaction_task_def Let_def)
    have "future (fst (transaction_task w stx s)) = Result r"
      by (simp add: run)
    moreover have "trace (fst (transaction_task w stx s)) =
        trace s @ [SendRawTransaction (rawTransaction stx), WaitForTransactionReceipt h,
          SetResult r]"
      using t2 by (simp add: run)
    ultimately show ?thesis by (auto simp: resolutions_simps)
  qed
qed

lemma sign_shape:
  "trace (fst (sign w t sender s)) = trace s @ [SignTransaction (private_key sender)] \<and>
   future (fst (sign w t sender s)) = future s \<and> store (fst (sign w t sender s)) = store s"
  by (simp add: sign_def log_def)

lemma fill_gas_keeps:
  "k \<in> dom (store s t) \<Longrightarrow> store (fst (fill_gas w t s)) t k = store s t k"
  by (auto simp: fill_gas_def set_item_def log_def split: sum.splits)

lemma fill_gasPrice_keeps:
  "k \<in> dom (store s t) \<Longrightarrow> store (fst (fill_gasPrice w t s)) t k = store s t k"
  by (auto simp: fill_gasPrice_def set_item_def log_def Let_def split: sum.splits)

lemma fill_nonce_keeps:
  "k \<in> dom (store s t) \<Longrightarrow> store (fst (fill_nonce w t sender s)) t k = store s t k"
  by (auto simp: fill_nonce_def set_item_def log_def Let_def split: sum.splits)


lemma complete_fields_fst:
  "fst (complete_fields w t sender s) =
     (case snd (fill_gas w t s) of
        Inl e \<Rightarrow> fst (fill_gas w t s)
      | Inr u \<Rightarrow>
          (case snd (fill_gasPrice w t (fst (fill_gas w t s))) of
             Inl e \<Rightarrow> fst (fill_gasPrice w t (fst (fill_gas w t s)))
           | Inr u \<Rightarrow> fst (fill_nonce w t sender (fst (fill_gasPrice w t (fst (fill_gas w t s)))))))"
  by (simp add: complete_fields_def split: prod.splits sum.splits)

lemma complete_fields_keeps:
  assumes "k \<in> dom (store s t)"
  shows "store (fst (complete_fields w t sender s)) t k = store s t k"
proof -
  let ?s1 = "fst (fill_gas w t s)"
  let ?s2 = "fst (fill_gasPrice w t ?s1)"
  have 1: "store ?s1 t k = store s t k" by (rule fill_gas_keeps [OF assms])
  have d1: "k \<in> dom (store ?s1 t)" using assms 1 by (auto simp: dom_def)
  have 2: "store ?s2 t k = store ?s1 t k" by (rule fill_gasPrice_keeps [OF d1])
  have d2: "k \<in> dom (store ?s2 t)" using d1 2 by (auto simp: dom_def)
  have 3: "store (fst (fill_nonce w t sender ?s2)) t k = store ?s2 t k"
    by (rule fill_nonce_keeps [OF d2])
  show ?thesis
    using 1 2 3 by (simp add: complete_fields_fst split: sum.splits)
qed

lemma fill_gas_frame: "r \<noteq> t \<Longrightarrow> store (fst (fill_gas w t s)) r = store s r"
  by (auto simp: fill_gas_def set_item_def log_def split: sum.splits)

lemma fill_gasPrice_frame: "r \<noteq> t \<Longrightarrow> store (fst (fill_gasPrice w t s)) r = store s r"
  by (auto simp: fill_gasPrice_def set_item_def log_def Let_def split: sum.splits)

lemma fill_nonce_frame: "r \<noteq> t \<Longrightarrow> store (fst (fill_nonce w t sender s)) r = store s r"
  by (auto simp: fill_nonce_def set_item_def log_def Let_def split: sum.splits)

lemma complete_fields_frame:
  "r \<noteq> t \<Longrightarrow> store (fst (complete_fields w t sender s)) r = store s r"
  by (simp add: complete_fields_fst fill_gas_frame fill_gasPrice_frame fill_nonce_frame
      split: sum.splits)

lemma fill_gas_dom:
  "snd (fill_gas w t s) = Inr u \<Longrightarrow>
   dom (store (fst (fill_gas w t s)) t) = insert ''gas'' (dom (store s t))"
  by (auto simp: fill_gas_def set_item_def log_def split: sum.splits if_splits)

lemma fill_gasPrice_dom:
  "snd (fill_gasPrice w t s) = Inr u \<Longrightarrow>
   dom (store (fst (fill_gasPrice w t s)) t) = insert ''gasPrice'' (dom (store s t))"
  by (auto simp: fill_gasPrice_def set_item_def log_def Let_def split: sum.splits if_splits)

lemma fill_nonce_dom:
  "snd (fill_nonce w t sender s) = Inr u \<Longrightarrow>
   dom (store (fst (fill_nonce w t sender s)) t) = insert ''nonce'' (dom (store s t))"
  by (auto simp: fill_nonce_def set_item_def log_def Let_def split: sum.splits if_splits)

lemma complete_fields_dom:
  assumes "snd (complete_fields w t sender s) = Inr u"
  shows "dom (store (fst (complete_fields w t sender s)) t) =
     dom (store s t) \<union> {''gas'', ''gasPrice'', ''nonce''}"
proof -
  let ?s1 = "fst (fill_gas w t s)"
  let ?s2 = "fst (fill_gasPrice w t ?s1)"
  from assms have a: "snd (fill_gas w t s) = Inr ()" "snd (fill_gasPrice w t ?s1) = Inr ()"
    "snd (fill_nonce w t sender ?s2) = Inr ()"
    by (auto simp: complete_fields_def split: prod.splits sum.splits)
  have "fst (complete_fields w t sender s) = fst (fill_nonce w t sender ?s2)"
    using a by (simp add: complete_fields_fst)
  then show ?thesis
    using fill_gas_dom [OF a(1)] fill_gasPrice_dom [OF a(2)] fill_nonce_dom [OF a(3)]
    by auto
qed

lemma set_exception_store: "store (fst (set_exception e s)) = store s"
  by (simp add: set_exception_def log_def split: future_state.splits)

lemma set_result_store: "store (fst (set_result r s)) = store s"
  by (simp add: set_result_def log_def split: future_state.splits)

lemma transaction_task_store: "store (fst (transaction_task w stx s)) = store s"
proof (cases "sendRawTransaction w (rawTransaction stx)")
  case (Inl e)
  then show ?thesis
    by (simp add: transaction_task_def Let_def set_exception_store log_def)
next
  case (Inr h)
  show ?thesis
  proof (cases "waitForTransactionReceipt w h")
    case e: (Inl e)
    with Inr show ?thesis
      by (simp add: transaction_task_def Let_def set_exception_store log_def)
  next
    case r: (Inr r)
    let ?s2 = "log (WaitForTransactionReceipt h) (log (SendRawTransaction (rawTransaction stx)) s)"
    have "store (fst (case set_result r ?s2 of
        (s3, Inl e) \<Rightarrow> set_exception e s3 | (s3, Inr u) \<Rightarrow> (s3, Inr ()))) = store ?s2"
      using set_result_store [of r ?s2]
      by (cases "set_result r ?s2") (auto simp: set_exception_store split: sum.splits)
    with Inr r show ?thesis
      by (simp add: transaction_task_def Let_def log_def)
  qed
qed

lemma send_transaction_store:
  "store (fst (send_transaction w t sender s0)) =
   store (fst (complete_fields w t sender (s0\<lparr>future := Pending\<rparr>)))"
  by (simp add: send_transaction_def Let_def sign_def log_def transaction_task_store
      split: prod.splits sum.splits)

lemma complete_fields_future:
  "future (fst (complete_fields w t sender s)) = future s"
  using complete_fields_shape [of w t sender s] by blast

section \<open>How the handle resolves\<close>

text \<open>
  Every outcome of \<open>send_transaction\<close>, with the calls of \<^verbatim>\<open>set_result\<close> and
  \<^verbatim>\<open>set_exception\<close> it adds to the trace: there is at most one such call. A receipt comes
  with the future holding it and the one call \<open>SetResult\<close>. An exception comes either with
  the future untouched and no call (field completion or signing raised in the coroutine) or
  with the future holding it and the one call \<open>SetException\<close>. The await never returns
  exactly when the one call is a \<open>SetException\<close> of a \<^verbatim>\<open>StopIteration\<close>, which the future
  refuses.
\<close>

theorem send_transaction_resolution_cases:
  "\<exists>evs.
     trace (fst (send_transaction w t sender s0)) = trace s0 @ evs \<and>
     length (resolutions evs) \<le> 1 \<and>
     (case snd (send_transaction w t sender s0) of
        Some (Inr receipt) \<Rightarrow>
          future (fst (send_transaction w t sender s0)) = Result receipt \<and>
          resolutions evs = [SetResult receipt]
      | Some (Inl e) \<Rightarrow>
          (future (fst (send_transaction w t sender s0)) = Pending \<and> resolutions evs = []) \<or>
          (future (fst (send_transaction w t sender s0)) = Raised e \<and>
           resolutions evs = [SetException e])
      | None \<Rightarrow>
          future (fst (send_transaction w t sender s0)) = Pending \<and>
          (\<exists>e. exn_class e = ''StopIteration'' \<and> resolutions evs = [SetException e]))"
proof -
  let ?s = "s0\<lparr>future := Pending\<rparr>"
  obtain s1 r1 where cf: "complete_fields w t sender ?s = (s1, r1)"
    by (cases "complete_fields w t sender ?s")
  obtain e1 where 1: "trace s1 = trace s0 @ e1" "resolutions e1 = []" "future s1 = Pending"
    using complete_fields_shape [of w t sender ?s] cf by auto
  show ?thesis
  proof (cases r1)
    case (Inl e)
    with cf 1 show ?thesis
      by (simp add: send_transaction_def)
  next
    case (Inr u)
    let ?s2 = "log (SignTransaction (private_key sender)) s1"
    have 2: "trace ?s2 = trace s0 @ e1 @ [SignTransaction (private_key sender)]"
      "future ?s2 = Pending"
      using 1 by (simp_all add: log_def)
    have r2: "resolutions (e1 @ [SignTransaction (private_key sender)]) = []"
      using 1 by (simp add: resolutions_append) (simp add: resolutions_def)
    show ?thesis
    proof (cases "sign_transaction w (store s1 t) (private_key sender)")
      case (Inl e)
      with cf Inr 1 2 r2 show ?thesis
        by (simp add: send_transaction_def sign_def)
    next
      case stx: (Inr stx)
      let ?s3 = "fst (transaction_task w stx ?s2)"
      obtain e3 where 3: "trace ?s3 = trace ?s2 @ e3" and
        alt: "(\<exists>r. future ?s3 = Result r \<and> resolutions e3 = [SetResult r]) \<or>
         (\<exists>e. future ?s3 = Raised e \<and> exn_class e \<noteq> ''StopIteration'' \<and>
              resolutions e3 = [SetException e]) \<or>
         (\<exists>e. future ?s3 = Pending \<and> exn_class e = ''StopIteration'' \<and>
              resolutions e3 = [SetException e])"
        using transaction_task_pending [OF 2(2), of w stx] by blast
      have res: "resolutions ((e1 @ [SignTransaction (private_key sender)]) @ e3) = resolutions e3"
        using r2 by (simp only: resolutions_append) simp
      have tr: "trace ?s3 = trace s0 @ (e1 @ [SignTransaction (private_key sender)]) @ e3"
        using 3 2 by simp
      have run: "send_transaction w t sender s0 =
          (?s3, case await_future ?s3 of
                  None \<Rightarrow> None
                | Some (Inl e) \<Rightarrow> Some (Inl (coroutine_raises e))
                | Some (Inr receipt) \<Rightarrow> Some (Inr receipt))"
        using cf Inr stx by (simp add: send_transaction_def sign_def Let_def)
      from alt consider
        (result) r where "future ?s3 = Result r" "resolutions e3 = [SetResult r]"
      | (raised) e where "future ?s3 = Raised e" "exn_class e \<noteq> ''StopIteration''"
          "resolutions e3 = [SetException e]"
      | (refused) e where "future ?s3 = Pending" "exn_class e = ''StopIteration''"
          "resolutions e3 = [SetException e]"
        by blast
      then show ?thesis
      proof cases
        case result
        show ?thesis
          apply (rule exI [of _ "(e1 @ [SignTransaction (private_key sender)]) @ e3"])
          using run result tr res by (simp add: await_future_def)
      next
        case raised
        show ?thesis
          apply (rule exI [of _ "(e1 @ [SignTransaction (private_key sender)]) @ e3"])
          using run raised tr res by (simp add: await_future_def coroutine_raises_def)
      next
        case refused
        show ?thesis
          apply (rule exI [of _ "(e1 @ [SignTransaction (private_key sender)]) @ e3"])
          using run refused tr res by (auto simp: await_future_def)
      qed
    qed
  qed
qed

text \<open>
  C1. The handle does not always resolve. Where submission raises a \<^verbatim>\<open>StopIteration\<close>, the
  task catches it, the one call of \<^verbatim>\<open>set_exception\<close> is refused inside the handler, the
  future stays pending and the await of \<open>send_transaction\<close> never returns.
\<close>

theorem send_transaction_never_resolves:
  "snd (send_transaction sample_web3_stop 0 sample_account sample_state) = None \<and>
   future (fst (send_transaction sample_web3_stop 0 sample_account sample_state)) = Pending \<and>
   resolutions (trace (fst (send_transaction sample_web3_stop 0 sample_account sample_state)))
     = [SetException (PyException ''StopIteration'' [])]"
  by (simp add: sample_web3_stop_def sample_defs run_defs resolutions_def)

section \<open>Field completion never overwrites\<close>

text \<open>
  C2. When \<open>gas\<close>, \<open>gasPrice\<close> and \<open>nonce\<close> are all present in the intent, field completion
  succeeds without asking the library anything and leaves the whole state, and so the three
  values, as they were. In any intent, a key that is present keeps its value.
\<close>

theorem complete_fields_present_unchanged:
  "(''gas'' \<in> dom (store s t) \<and> ''gasPrice'' \<in> dom (store s t) \<and> ''nonce'' \<in> dom (store s t)
      \<longrightarrow> complete_fields w t sender s = (s, Inr ())) \<and>
   (k \<in> dom (store s t) \<longrightarrow> store (fst (complete_fields w t sender s)) t k = store s t k)"
  by (simp add: complete_fields_keeps)
    (simp add: complete_fields_def fill_gas_def fill_gasPrice_def fill_nonce_def)

theorem complete_fields_present_unchanged_witness:
  "''gas'' \<in> dom (store sample_state 1) \<and> ''gasPrice'' \<in> dom (store sample_state 1) \<and>
   ''nonce'' \<in> dom (store sample_state 1) \<and>
   complete_fields sample_web3 1 sample_account sample_state = (sample_state, Inr ()) \<and>
   store (fst (complete_fields sample_web3 1 sample_account sample_state)) 1 ''gas''
     = Some (VInt 30000)"
  using complete_fields_present_unchanged
    [where s = sample_state and t = 1 and w = sample_web3 and sender = sample_account
       and k = "''gas''"]
  by (simp add: sample_state_def sample_intent_def)

section \<open>Field completion writes into the caller's dict\<close>

text \<open>
  C9, as the code has it. When the intent at reference \<open>t\<close> lacks one of \<open>gas\<close>, \<open>gasPrice\<close>, \<open>nonce\<close> and field
  completion goes through (no library call raises), then after \<open>send_transaction\<close>,
  whatever signing and the task did, the dict object the caller passed holds the missing
  key: the object has changed, its keys are the old ones and the three fields, the old keys
  keep their values, and no other object is touched.
\<close>

theorem send_transaction_mutates_intent:
  assumes "snd (complete_fields w t sender (s0\<lparr>future := Pending\<rparr>)) = Inr ()"
    and "k \<in> {''gas'', ''gasPrice'', ''nonce''}"
    and "k \<notin> dom (store s0 t)"
  shows "k \<in> dom (store (fst (send_transaction w t sender s0)) t) \<and>
     store (fst (send_transaction w t sender s0)) t \<noteq> store s0 t \<and>
     dom (store (fst (send_transaction w t sender s0)) t) =
       dom (store s0 t) \<union> {''gas'', ''gasPrice'', ''nonce''} \<and>
     (\<forall>j \<in> dom (store s0 t). store (fst (send_transaction w t sender s0)) t j = store s0 t j) \<and>
     (\<forall>r. r \<noteq> t \<longrightarrow> store (fst (send_transaction w t sender s0)) r = store s0 r)"
proof -
  let ?s = "s0\<lparr>future := Pending\<rparr>"
  have st: "store ?s = store s0" by simp
  have d: "dom (store (fst (send_transaction w t sender s0)) t) =
       dom (store s0 t) \<union> {''gas'', ''gasPrice'', ''nonce''}"
    using complete_fields_dom [OF assms(1)] by (simp add: send_transaction_store)
  have k: "k \<in> dom (store (fst (send_transaction w t sender s0)) t)"
    using d assms(2) by blast
  have ne: "store (fst (send_transaction w t sender s0)) t \<noteq> store s0 t"
    using k assms(3) by auto
  have keep: "\<forall>j \<in> dom (store s0 t). store (fst (send_transaction w t sender s0)) t j = store s0 t j"
    using complete_fields_keeps [of _ ?s t w sender] by (simp add: send_transaction_store)
  have frame: "\<forall>r. r \<noteq> t \<longrightarrow> store (fst (send_transaction w t sender s0)) r = store s0 r"
    using complete_fields_frame [of _ t w sender ?s] by (simp add: send_transaction_store)
  from k ne d keep frame show ?thesis by blast
qed

theorem send_transaction_mutates_intent_witness:
  "snd (complete_fields sample_web3 0 sample_account (sample_state\<lparr>future := Pending\<rparr>)) = Inr () \<and>
   ''gas'' \<notin> dom (store sample_state 0) \<and>
   ''gas'' \<in> dom (store (fst (send_transaction sample_web3 0 sample_account sample_state)) 0) \<and>
   store (fst (send_transaction sample_web3 0 sample_account sample_state)) 0
     \<noteq> store sample_state 0"
proof -
  have h1: "snd (complete_fields sample_web3 0 sample_account (sample_state\<lparr>future := Pending\<rparr>))
      = Inr ()"
    by (simp add: sample_defs run_defs)
  have h2: "''gas'' \<in> {''gas'', ''gasPrice'', ''nonce''}" by simp
  have h3: "''gas'' \<notin> dom (store sample_state 0)"
    by (simp add: sample_defs)
  show ?thesis
    using send_transaction_mutates_intent [OF h1 h2 h3] h1 h3 by blast
qed

text \<open>
  The claim as stated, for every call, fails where a fetch raises: the intent at reference
  0 lacks \<open>gas\<close>, the gas estimate fails, and the call ends with that exception and the
  caller's dict as it was.
\<close>

theorem send_transaction_no_mutation_counterexample:
  "''gas'' \<notin> dom (store sample_state 0) \<and>
   snd (send_transaction sample_web3_no_estimate 0 sample_account sample_state)
     = Some (Inl (PyException ''ValueError'' ''execution reverted'')) \<and>
   store (fst (send_transaction sample_web3_no_estimate 0 sample_account sample_state)) 0
     = store sample_state 0"
  by (simp add: sample_web3_no_estimate_def sample_defs run_defs)

section \<open>The receipt is the one asked for\<close>




section \<open>A failed confirmation wait\<close>





section \<open>Signer and sender\<close>






section \<open>The state-mutating contract methods\<close>

lemmas call_defs =
  TFCToken_transfer_def TFCManager_claim_tfc_def state_mutating_call_def alloc_def
  await_discard_def sample_contract_def sample_encodeABI_def

lemma coroutine_raises_not_stop: "exn_class (coroutine_raises e) \<noteq> ''StopIteration''"
  by (simp add: coroutine_raises_def)












section \<open>\<^verbatim>\<open>claim_tfc\<close> and the signature\<close>

lemma send_transaction_trace_prefix:
  "\<exists>evs. trace (fst (send_transaction w t sender s0)) = trace s0 @ evs"
proof -
  let ?s = "s0\<lparr>future := Pending\<rparr>"
  let ?s1 = "fst (complete_fields w t sender ?s)"
  let ?s2 = "log (SignTransaction (private_key sender)) ?s1"
  obtain e1 where 1: "trace ?s1 = trace s0 @ e1"
    using complete_fields_shape [of w t sender ?s] by auto
  have f2: "future ?s2 = Pending"
    by (simp add: log_def complete_fields_future)
  have task: "\<exists>evs. trace (fst (transaction_task w stx ?s2)) = trace ?s2 @ evs" for stx
    using transaction_task_pending [OF f2, of w stx] by blast
  have 2: "trace ?s2 = trace s0 @ e1 @ [SignTransaction (private_key sender)]"
    using 1 by (simp add: log_def)
  show ?thesis
  proof (cases "snd (complete_fields w t sender ?s)")
    case (Inl e)
    then have "fst (send_transaction w t sender s0) = ?s1"
      by (auto simp: send_transaction_def split: prod.splits sum.splits)
    with 1 show ?thesis by simp
  next
    case (Inr u)
    show ?thesis
    proof (cases "sign_transaction w (store ?s1 t) (private_key sender)")
      case (Inl e)
      with Inr have "fst (send_transaction w t sender s0) = ?s2"
        by (auto simp: send_transaction_def sign_def split: prod.splits sum.splits)
      with 2 show ?thesis by simp
    next
      case stx: (Inr stx)
      with Inr have "fst (send_transaction w t sender s0) = fst (transaction_task w stx ?s2)"
        by (auto simp: send_transaction_def sign_def Let_def split: prod.splits sum.splits)
      with task [of stx] 2 show ?thesis by auto
    qed
  qed
qed

lemma padded_hex_even: "even (length (padded_hex hexstr))"
proof (cases "take 2 hexstr = ''0x'' \<or> take 2 hexstr = ''0X''")
  case True
  then have "2 \<le> length hexstr"
    by (cases hexstr; cases "tl hexstr") auto
  with True show ?thesis
    by (auto simp: padded_hex_def remove_0x_prefix_def)
next
  case False
  then show ?thesis
    by (auto simp: padded_hex_def remove_0x_prefix_def)
qed

lemma unhexlify_None_iff:
  "even (length h) \<Longrightarrow> (unhexlify h = None) = (\<not> list_all is_hex h)"
  by (induction h rule: unhexlify.induct)
     (auto simp: is_hex_def split: option.splits)

lemma is_hex_ascii: "is_hex c \<Longrightarrow> is_ascii c"
  by (auto simp: is_hex_def is_ascii_def hex_digit_def Let_def split: if_splits)

lemma list_all_hex_ascii: "list_all is_hex h \<Longrightarrow> list_all is_ascii h"
  by (induction h) (auto dest: is_hex_ascii)

lemma web3_toBytes_hex:
  assumes "list_all is_hex (padded_hex hexstr)"
  shows "\<exists>b. unhexlify (padded_hex hexstr) = Some b \<and> web3_toBytes hexstr = Inr b"
proof -
  from assms have "unhexlify (padded_hex hexstr) \<noteq> None"
    using unhexlify_None_iff [OF padded_hex_even, of hexstr] by simp
  then obtain b where "unhexlify (padded_hex hexstr) = Some b" by auto
  with list_all_hex_ascii [OF assms] show ?thesis
    by (simp add: web3_toBytes_def Let_def)
qed

lemma web3_toBytes_not_hex:
  assumes "\<not> list_all is_hex (padded_hex hexstr)"
  shows "\<exists>e. web3_toBytes hexstr = Inl e \<and>
     (exn_class e = ''binascii.Error'' \<or> exn_class e = ''UnicodeEncodeError'')"
proof -
  from assms have "unhexlify (padded_hex hexstr) = None"
    using unhexlify_None_iff [OF padded_hex_even, of hexstr] by simp
  then show ?thesis
    by (simp add: web3_toBytes_def Let_def)
qed

lemma claim_tfc_decode_failure:
  "toBytes w signature = Inl e \<Longrightarrow>
   TFCManager_claim_tfc w self amount nonce signature claimer s =
     (log (ToBytes signature) s, Some (Inl (coroutine_raises e)))"
  by (simp add: TFCManager_claim_tfc_def)

lemma claim_tfc_decode_success:
  assumes dec: "toBytes w signature = Inr sig"
  shows "\<exists>evs. trace (fst (TFCManager_claim_tfc w self amount nonce signature claimer s)) =
         trace s @ ToBytes signature #
           BuildTransaction (contract_address self) ''claimTFC''
             [VInt amount, VInt nonce, VBytes sig] (address claimer) # evs"
proof -
  let ?args = "[VInt amount, VInt nonce, VBytes sig]"
  let ?s1 = "log (BuildTransaction (contract_address self) ''claimTFC'' ?args (address claimer))
      (log (ToBytes signature) s)"
  have t1: "trace ?s1 = trace s @ [ToBytes signature,
      BuildTransaction (contract_address self) ''claimTFC'' ?args (address claimer)]"
    by (simp add: log_def)
  show ?thesis
  proof (cases "buildTransaction w (contract_address self) ''claimTFC'' ?args
      [''from'' \<mapsto> VStr (address claimer)]")
    case (Inl e')
    with dec have "fst (TFCManager_claim_tfc w self amount nonce signature claimer s) = ?s1"
      by (simp add: TFCManager_claim_tfc_def Let_def)
    with t1 show ?thesis by simp
  next
    case (Inr tx)
    let ?s2 = "snd (alloc tx ?s1)"
    have t2: "trace ?s2 = trace ?s1"
      by (simp add: alloc_def)
    from dec Inr have "fst (TFCManager_claim_tfc w self amount nonce signature claimer s) =
        fst (send_transaction w (next_ref ?s1) claimer ?s2)"
      by (simp add: TFCManager_claim_tfc_def Let_def alloc_def split: prod.splits)
    moreover obtain evs where
      "trace (fst (send_transaction w (next_ref ?s1) claimer ?s2)) = trace ?s2 @ evs"
      using send_transaction_trace_prefix by blast
    ultimately show ?thesis
      using t1 t2 by simp
  qed
qed

text \<open>
  C5, as the code has it, with the library's decoder \<open>web3_toBytes\<close>. \<open>claim_tfc\<close> first
  decodes the signature string. When its digits (the string without a \<^verbatim>\<open>0x\<close> prefix,
  padded with a leading zero to an even number) are all hex digits, they are decoded to
  bytes, and these bytes are the third argument of the \<^verbatim>\<open>claimTFC\<close> call the contract
  binding is asked to encode next. When one of them is not a hex digit, the decoding is
  rejected: \<open>claim_tfc\<close> fails with the decoder's \<^verbatim>\<open>binascii.Error\<close> or
  \<^verbatim>\<open>UnicodeEncodeError\<close>, and nothing is built or submitted.
\<close>

theorem claim_tfc_decodes_signature:
  assumes "toBytes w = web3_toBytes"
  shows
   "(list_all is_hex (padded_hex signature) \<longrightarrow>
      (\<exists>sig evs.
         unhexlify (padded_hex signature) = Some sig \<and>
         toBytes w signature = Inr sig \<and>
         trace (fst (TFCManager_claim_tfc w self amount nonce signature claimer s)) =
           trace s @ ToBytes signature #
             BuildTransaction (contract_address self) ''claimTFC''
               [VInt amount, VInt nonce, VBytes sig] (address claimer) # evs)) \<and>
    (\<not> list_all is_hex (padded_hex signature) \<longrightarrow>
      (\<exists>e. TFCManager_claim_tfc w self amount nonce signature claimer s =
              (log (ToBytes signature) s, Some (Inl e)) \<and>
            toBytes w signature = Inl e \<and>
            (exn_class e = ''binascii.Error'' \<or> exn_class e = ''UnicodeEncodeError'')))"
proof (intro conjI impI)
  assume "list_all is_hex (padded_hex signature)"
  from web3_toBytes_hex [OF this] obtain sig where
    u: "unhexlify (padded_hex signature) = Some sig" and d: "toBytes w signature = Inr sig"
    using assms by auto
  from claim_tfc_decode_success [OF d, of self amount nonce claimer s] u d
  show "\<exists>sig evs.
         unhexlify (padded_hex signature) = Some sig \<and>
         toBytes w signature = Inr sig \<and>
         trace (fst (TFCManager_claim_tfc w self amount nonce signature claimer s)) =
           trace s @ ToBytes signature #
             BuildTransaction (contract_address self) ''claimTFC''
               [VInt amount, VInt nonce, VBytes sig] (address claimer) # evs"
    by blast
next
  assume "\<not> list_all is_hex (padded_hex signature)"
  from web3_toBytes_not_hex [OF this] obtain e where
    d: "toBytes w signature = Inl e" and
    c: "exn_class e = ''binascii.Error'' \<or> exn_class e = ''UnicodeEncodeError''"
    using assms by auto
  from c have "coroutine_raises e = e"
    by (auto simp: coroutine_raises_def)
  with claim_tfc_decode_failure [OF d, of self amount nonce claimer s] d c
  show "\<exists>e. TFCManager_claim_tfc w self amount nonce signature claimer s =
              (log (ToBytes signature) s, Some (Inl e)) \<and>
            toBytes w signature = Inl e \<and>
            (exn_class e = ''binascii.Error'' \<or> exn_class e = ''UnicodeEncodeError'')"
    by auto
qed

lemmas hex_defs = web3_toBytes_def padded_hex_def remove_0x_prefix_def hex_digit_def
  is_hex_def is_ascii_def

theorem claim_tfc_decodes_signature_witness:
  "toBytes sample_web3 = web3_toBytes \<and>
   list_all is_hex (padded_hex ''0xabc123'') \<and>
   (\<exists>sig evs.
      unhexlify (padded_hex ''0xabc123'') = Some sig \<and>
      toBytes sample_web3 ''0xabc123'' = Inr sig \<and>
      trace (fst (TFCManager_claim_tfc sample_web3 sample_contract 10 1 ''0xabc123''
                    sample_account sample_state)) =
        trace sample_state @ ToBytes ''0xabc123'' #
          BuildTransaction (contract_address sample_contract) ''claimTFC''
            [VInt 10, VInt 1, VBytes sig] (address sample_account) # evs) \<and>
   \<not> list_all is_hex (padded_hex ''0xzz'') \<and>
   (\<exists>e. TFCManager_claim_tfc sample_web3 sample_contract 10 1 ''0xzz'' sample_account
           sample_state = (log (ToBytes ''0xzz'') sample_state, Some (Inl e)) \<and>
         toBytes sample_web3 ''0xzz'' = Inl e \<and>
         (exn_class e = ''binascii.Error'' \<or> exn_class e = ''UnicodeEncodeError''))"
proof -
  have h0: "toBytes sample_web3 = web3_toBytes"
    by (simp add: sample_web3_def)
  have h1: "list_all is_hex (padded_hex ''0xabc123'')"
    by (simp add: hex_defs)
  have h2: "\<not> list_all is_hex (padded_hex ''0xzz'')"
    by (simp add: hex_defs)
  note a = claim_tfc_decodes_signature
    [where w = sample_web3 and signature = "''0xabc123''" and self = sample_contract
       and amount = 10 and nonce = 1 and claimer = sample_account and s = sample_state, OF h0]
  note b = claim_tfc_decodes_signature
    [where w = sample_web3 and signature = "''0xzz''" and self = sample_contract
       and amount = 10 and nonce = 1 and claimer = sample_account and s = sample_state, OF h0]
  from a h1 have 1: "\<exists>sig evs.
      unhexlify (padded_hex ''0xabc123'') = Some sig \<and>
      toBytes sample_web3 ''0xabc123'' = Inr sig \<and>
      trace (fst (TFCManager_claim_tfc sample_web3 sample_contract 10 1 ''0xabc123''
                    sample_account sample_state)) =
        trace sample_state @ ToBytes ''0xabc123'' #
          BuildTransaction (contract_address sample_contract) ''claimTFC''
            [VInt 10, VInt 1, VBytes sig] (address sample_account) # evs"
    by blast
  from b h2 have 2: "\<exists>e. TFCManager_claim_tfc sample_web3 sample_contract 10 1 ''0xzz''
           sample_account sample_state = (log (ToBytes ''0xzz'') sample_state, Some (Inl e)) \<and>
         toBytes sample_web3 ''0xzz'' = Inl e \<and>
         (exn_class e = ''binascii.Error'' \<or> exn_class e = ''UnicodeEncodeError'')"
    by blast
  show ?thesis
    by (intro conjI) (rule h0, rule h1, rule 1, rule h2, rule 2)
qed

text \<open>
  The claim as stated fails in three places. A signature with a character that is no hex
  digit makes \<open>claim_tfc\<close> fail with the decoder's \<^verbatim>\<open>binascii.Error\<close>, which is no
  \<^verbatim>\<open>ConfigurationError\<close>. The bytes decoded from \<^verbatim>\<open>0xabc123\<close>, which go to the encoder and
  into the call data, are \<open>ab c1 23\<close>, not \<open>ab c3 23\<close>. And a signature with an odd number
  of digits is not rejected: \<^verbatim>\<open>0xabc\<close> is decoded as \<open>0a bc\<close> and the claim is submitted.
\<close>

theorem claim_tfc_signature_counterexample:
  "snd (TFCManager_claim_tfc sample_web3 sample_contract 10 1 ''0xzz'' sample_account sample_state)
     = Some (Inl (PyException ''binascii.Error'' ''Non-hexadecimal digit found'')) \<and>
   exn_class (PyException ''binascii.Error'' ''Non-hexadecimal digit found'')
     \<noteq> ''ConfigurationError'' \<and>
   toBytes sample_web3 ''0xabc123'' = Inr [0xab, 0xc1, 0x23] \<and>
   [0xab, 0xc1, 0x23] \<noteq> [0xab, 0xc3, 0x23 :: 8 word] \<and>
   BuildTransaction ''0xc0'' ''claimTFC'' [VInt 10, VInt 1, VBytes [0xab, 0xc1, 0x23]] ''0xa1''
     \<in> set (trace (fst (TFCManager_claim_tfc sample_web3 sample_contract 10 1 ''0xabc123''
                          sample_account sample_state))) \<and>
   odd (length ''abc'') \<and>
   toBytes sample_web3 ''0xabc'' = Inr [0x0a, 0xbc] \<and>
   snd (TFCManager_claim_tfc sample_web3 sample_contract 10 1 ''0xabc'' sample_account sample_state)
     = Some (Inr PyNone) \<and>
   SendRawTransaction [0xf8, 0x6b]
     \<in> set (trace (fst (TFCManager_claim_tfc sample_web3 sample_contract 10 1 ''0xabc''
                          sample_account sample_state)))"
  by (simp add: call_defs sample_defs run_defs hex_defs)

section \<open>Wei and ether\<close>




section \<open>Choosing the provider\<close>

text \<open>
  C10. \<^verbatim>\<open>SDK.__init__\<close> strips the endpoint first. A stripped endpoint that starts with
  \<^verbatim>\<open>http\<close> gives an HTTP provider for it; otherwise one that starts with \<^verbatim>\<open>ws\<close> gives a
  websocket provider; any other string gives a \<^verbatim>\<open>ValueError\<close> whose message names the
  stripped endpoint. \<open>None\<close> fails in \<^verbatim>\<open>strip()\<close> with an \<^verbatim>\<open>AttributeError\<close>.
\<close>

theorem SDK_init_endpoint_dispatch:
  "(startswith (strip e) ''http'' \<longrightarrow> SDK_init (Some e) = Inr (HTTPProvider (strip e))) \<and>
   (\<not> startswith (strip e) ''http'' \<and> startswith (strip e) ''ws'' \<longrightarrow>
      SDK_init (Some e) = Inr (WebsocketProvider (strip e))) \<and>
   (\<not> startswith (strip e) ''http'' \<and> \<not> startswith (strip e) ''ws'' \<longrightarrow>
      SDK_init (Some e) =
        Inl (PyException ''ValueError'' (''unsupported Ethereum endpoint '' @ strip e))) \<and>
   (\<exists>msg. SDK_init None = Inl (PyException ''AttributeError'' msg))"
  by (simp add: SDK_init_def Let_def)

theorem SDK_init_endpoint_dispatch_witness:
  "startswith (strip '' http://localhost:8545 '') ''http'' \<and>
   SDK_init (Some '' http://localhost:8545 '') = Inr (HTTPProvider ''http://localhost:8545'') \<and>
   \<not> startswith (strip ''ws://node'') ''http'' \<and> startswith (strip ''ws://node'') ''ws'' \<and>
   SDK_init (Some ''ws://node'') = Inr (WebsocketProvider ''ws://node'') \<and>
   \<not> startswith (strip ''ipc:/tmp/geth '') ''http'' \<and>
   \<not> startswith (strip ''ipc:/tmp/geth '') ''ws'' \<and>
   SDK_init (Some ''ipc:/tmp/geth '') =
     Inl (PyException ''ValueError'' ''unsupported Ethereum endpoint ipc:/tmp/geth'')"
proof -
  have s1: "strip '' http://localhost:8545 '' = ''http://localhost:8545''"
    by (simp add: strip_def isspace_def)
  have s2: "strip ''ws://node'' = ''ws://node''"
    by (simp add: strip_def isspace_def)
  have s3: "strip ''ipc:/tmp/geth '' = ''ipc:/tmp/geth''"
    by (simp add: strip_def isspace_def)
  have a: "startswith (strip '' http://localhost:8545 '') ''http''"
    by (simp add: s1 startswith_def)
  have b: "\<not> startswith (strip ''ws://node'') ''http'' \<and> startswith (strip ''ws://node'') ''ws''"
    by (simp add: s2 startswith_def)
  have c: "\<not> startswith (strip ''ipc:/tmp/geth '') ''http'' \<and>
      \<not> startswith (strip ''ipc:/tmp/geth '') ''ws''"
    by (simp add: s3 startswith_def)
  show ?thesis
    using SDK_init_endpoint_dispatch [of "'' http://localhost:8545 ''"]
      SDK_init_endpoint_dispatch [of "''ws://node''"]
      SDK_init_endpoint_dispatch [of "''ipc:/tmp/geth ''"] a b c
    by (simp add: s1 s2 s3)
qed

end
